theory Spec2Isabelle
  imports Main
begin

section \<open>The application factory of the banking management system (app/__init__.py)\<close>

text \<open>
  The file builds the Flask application: a configuration class, the principal loader of
  the login subsystem, the creation of the tables and of the default administrator at
  startup, the landing redirect and two error handlers. What the file calls in other
  modules and libraries is made explicit here: the environment, the database with its
  session, the standard output, the password hashing, the URL builder and the template
  renderer.
\<close>

subsection \<open>Exceptions\<close>

datatype error =
    ValueError
  | IndexError
  | OperationalError
  | BuildError
  | TemplateNotFound

subsection \<open>Python strings, \<open>str.startswith\<close>, \<open>str.split\<close>, indexing and \<open>int\<close>\<close>

text \<open>
  A character of an identifier is read as the code point of the same number, so the
  identifiers covered are the strings over the code points 0 to 255.
\<close>

definition startswith :: "string \<Rightarrow> string \<Rightarrow> bool" where
  "startswith s p = (take (length p) s = p)"

text \<open>\<open>s.split(sep)\<close> for a one-character separator: never an empty list.\<close>

fun str_split :: "char \<Rightarrow> string \<Rightarrow> string list" where
  "str_split sep [] = [[]]"
| "str_split sep (c # cs) =
     (if c = sep then [] # str_split sep cs
      else (case str_split sep cs of
              [] \<Rightarrow> [[c]]
            | p # ps \<Rightarrow> (c # p) # ps))"

text \<open>\<open>xs[i]\<close> for an index that is not negative; out of range raises IndexError.\<close>

definition getitem :: "'a list \<Rightarrow> nat \<Rightarrow> error + 'a" where
  "getitem xs i = (if i < length xs then Inr (xs ! i) else Inl IndexError)"

text \<open>
  \<open>int(s)\<close> in base 10, the way CPython reads a string: white space on both sides is
  skipped, one sign may come first, then digits, with single underscores allowed between
  two digits. On the code points 0 to 255 the white space is tab to carriage return,
  the space, and the two characters NEL and NBSP; the decimal digits are 0 to 9. The
  interpreter refuses a literal of more digits than its limit \<open>max_str_digits\<close> when that
  limit is not 0 (underscores and the sign do not count). Every refusal is a ValueError.
\<close>

definition is_space :: "char \<Rightarrow> bool" where
  "is_space c =
     (let n = (of_char c :: nat)
      in (9 \<le> n \<and> n \<le> 13) \<or> n = 32 \<or> n = 133 \<or> n = 160)"

definition is_digit :: "char \<Rightarrow> bool" where
  "is_digit c = (let n = (of_char c :: nat) in 48 \<le> n \<and> n \<le> 57)"

definition digit_value :: "char \<Rightarrow> int" where
  "digit_value c = int (of_char c) - 48"

definition is_literal_char :: "char \<Rightarrow> bool" where
  "is_literal_char c = (is_digit c \<or> c = CHR ''_'')"

fun double_underscore :: "string \<Rightarrow> bool" where
  "double_underscore (a # b # cs) =
     ((a = CHR ''_'' \<and> b = CHR ''_'') \<or> double_underscore (b # cs))"
| "double_underscore _ = False"

definition literal_ok :: "string \<Rightarrow> bool" where
  "literal_ok body =
     (case body of
        [] \<Rightarrow> False
      | c # cs \<Rightarrow> c \<noteq> CHR ''_'' \<and> last body \<noteq> CHR ''_'' \<and> \<not> double_underscore body)"

definition literal_value :: "string \<Rightarrow> int" where
  "literal_value body = foldl (\<lambda>acc c. 10 * acc + digit_value c) 0 (filter is_digit body)"

definition py_int :: "nat \<Rightarrow> string \<Rightarrow> error + int" where
  "py_int max_str_digits s =
     (let s1 = dropWhile is_space s;
          (sign, s2) =
             (case s1 of
                [] \<Rightarrow> (1, [])
              | c # cs \<Rightarrow>
                  if c = CHR ''+'' then (1, cs)
                  else if c = CHR ''-'' then (- 1, cs)
                  else (1, s1));
          body = takeWhile is_literal_char s2;
          rest = dropWhile is_literal_char s2;
          digits = length (filter is_digit body)
      in if \<not> literal_ok body \<or> \<not> list_all is_space rest then Inl ValueError
         else if 0 < max_str_digits \<and> max_str_digits < digits then Inl ValueError
         else Inr (sign * literal_value body))"

subsection \<open>The database, its session and the standard output\<close>

text \<open>
  The columns of an \<open>Admin\<close> row are the ones the factory gives a value to, and the
  primary key, which is \<open>None\<close> until the row is inserted. The columns of a \<open>User\<close> row
  are declared in the models, which the factory never reads, so a user row is a primary
  key with a value of any type.
\<close>

record admin =
  pk :: "int option"
  username :: string
  email :: string
  password :: string

datatype 'u principal = AdminRow admin | UserRow int 'u

datatype 'u pending = NewAdmin admin | NewUser 'u

datatype db_event =
    CreateAll
  | AdminFilterByUsername string
  | AdminGet int
  | UserGet int
  | SessionAdd
  | Commit
  | Rollback

text \<open>
  A table that has not been created yet is \<open>None\<close>. \<open>session_new\<close> holds the objects
  added to the session and not yet committed, \<open>db_log\<close> every operation issued on the
  database or the session, in order, and \<open>stdout\<close> the lines printed, as the bytes of
  their UTF-8 encoding.
\<close>

record 'u world =
  admin_table :: "admin list option"
  user_table :: "(int \<times> 'u) list option"
  session_new :: "'u pending list"
  db_log :: "db_event list"
  stdout :: "string list"
  int_max_str_digits :: nat

definition issue :: "db_event \<Rightarrow> 'u world \<Rightarrow> 'u world" where
  "issue e w = w\<lparr>db_log := db_log w @ [e]\<rparr>"

definition rows :: "'a list option \<Rightarrow> 'a list" where
  "rows t = (case t of None \<Rightarrow> [] | Some rs \<Rightarrow> rs)"

text \<open>\<open>db.create_all()\<close>: every missing table is created, empty; the others are kept.\<close>

definition create_all :: "'u world \<Rightarrow> 'u world" where
  "create_all w =
     issue CreateAll
       (w\<lparr>admin_table := Some (rows (admin_table w)),
          user_table := Some (rows (user_table w))\<rparr>)"

text \<open>\<open>Admin.query.get(i)\<close> and \<open>User.query.get(i)\<close>: the row of that primary key, or \<open>None\<close>.\<close>

definition Admin_query_get :: "int \<Rightarrow> 'u world \<Rightarrow> (error + 'u principal option) \<times> 'u world" where
  "Admin_query_get i w =
     (case admin_table w of
        None \<Rightarrow> (Inl OperationalError, issue (AdminGet i) w)
      | Some rs \<Rightarrow>
          (Inr (map_option AdminRow (find (\<lambda>r. pk r = Some i) rs)), issue (AdminGet i) w))"

definition User_query_get :: "int \<Rightarrow> 'u world \<Rightarrow> (error + 'u principal option) \<times> 'u world" where
  "User_query_get i w =
     (case user_table w of
        None \<Rightarrow> (Inl OperationalError, issue (UserGet i) w)
      | Some rs \<Rightarrow>
          (Inr (map_option (\<lambda>(k, u). UserRow k u) (find (\<lambda>(k, u). k = i) rs)),
           issue (UserGet i) w))"

text \<open>\<open>Admin.query.filter_by(username=name).first()\<close>: the first row of that name, or \<open>None\<close>.\<close>

definition Admin_query_filter_by_username_first ::
  "string \<Rightarrow> 'u world \<Rightarrow> (error + admin option) \<times> 'u world" where
  "Admin_query_filter_by_username_first name w =
     (case admin_table w of
        None \<Rightarrow> (Inl OperationalError, issue (AdminFilterByUsername name) w)
      | Some rs \<Rightarrow>
          (Inr (find (\<lambda>r. username r = name) rs), issue (AdminFilterByUsername name) w))"

subsection \<open>The principal loader\<close>

definition load_user :: "string \<Rightarrow> 'u world \<Rightarrow> (error + 'u principal option) \<times> 'u world" where
  "load_user user_id w =
     (if startswith user_id ''admin_'' then
        (case getitem (str_split CHR ''_'' user_id) 1 of
           Inl e \<Rightarrow> (Inl e, w)
         | Inr segment \<Rightarrow>
             (case py_int (int_max_str_digits w) segment of
                Inl e \<Rightarrow> (Inl e, w)
              | Inr admin_id \<Rightarrow> Admin_query_get admin_id w))
      else
        (case py_int (int_max_str_digits w) user_id of
           Inl e \<Rightarrow> (Inl e, w)
         | Inr i \<Rightarrow> User_query_get i w))"

subsection \<open>The session: add, commit, rollback\<close>

text \<open>
  An inserted row gets the primary key after the largest one of its table, 1 in an empty
  table, unless it already carries one. A commit inserts the pending objects in the order
  they were added, and needs their tables.
\<close>

fun next_pk :: "int list \<Rightarrow> int" where
  "next_pk [] = 1"
| "next_pk (k # ks) = fold max ks k + 1"

definition keys_of :: "admin list \<Rightarrow> int list" where
  "keys_of rs = List.map_filter pk rs"

definition insert_admin :: "admin \<Rightarrow> admin list \<Rightarrow> admin list" where
  "insert_admin a rs =
     (case pk a of
        None \<Rightarrow> rs @ [a\<lparr>pk := Some (next_pk (keys_of rs))\<rparr>]
      | Some k \<Rightarrow> rs @ [a])"

fun flush :: "'u pending list \<Rightarrow> 'u world \<Rightarrow> error + 'u world" where
  "flush [] w = Inr w"
| "flush (NewAdmin a # ps) w =
     (case admin_table w of
        None \<Rightarrow> Inl OperationalError
      | Some rs \<Rightarrow> flush ps (w\<lparr>admin_table := Some (insert_admin a rs)\<rparr>))"
| "flush (NewUser u # ps) w =
     (case user_table w of
        None \<Rightarrow> Inl OperationalError
      | Some rs \<Rightarrow> flush ps (w\<lparr>user_table := Some (rs @ [(next_pk (map fst rs), u)])\<rparr>))"

definition session_add :: "'u pending \<Rightarrow> 'u world \<Rightarrow> 'u world" where
  "session_add obj w = issue SessionAdd (w\<lparr>session_new := session_new w @ [obj]\<rparr>)"

definition session_commit :: "'u world \<Rightarrow> error + 'u world" where
  "session_commit w =
     (case flush (session_new w) w of
        Inl e \<Rightarrow> Inl e
      | Inr w' \<Rightarrow> Inr (issue Commit (w'\<lparr>session_new := []\<rparr>)))"

definition session_rollback :: "'u world \<Rightarrow> 'u world" where
  "session_rollback w = issue Rollback (w\<lparr>session_new := []\<rparr>)"

definition print :: "string \<Rightarrow> 'u world \<Rightarrow> 'u world" where
  "print line w = w\<lparr>stdout := stdout w @ [line]\<rparr>"

subsection \<open>Startup: the tables and the default administrator\<close>

text \<open>
  The block under \<open>with app.app_context()\<close> of \<open>create_app\<close>, which is all the factory
  does to the database and to the standard output; the views it registers are modelled
  further down, and the wiring of the extensions and of the route modules is left out.
  The context opens a session of its own, with nothing pending.
  \<open>generate_password_hash\<close> is the hashing function of the security library at this
  call, salt included: it takes the password and the method.
\<close>

definition banner :: "string list" where
  "banner =
     [replicate 60 CHR ''='',
      [CHR 0xE2, CHR 0x9C, CHR 0x93] @ '' Default admin account created successfully!'',
      ''  Username: admin'',
      ''  Password: admin123'',
      ''  '' @ [CHR 0xE2, CHR 0x9A, CHR 0xA0, CHR 0xEF, CHR 0xB8, CHR 0x8F]
         @ ''  IMPORTANT: Change this password after first login!'',
      replicate 60 CHR ''='']"

definition app_context :: "'u world \<Rightarrow> 'u world" where
  "app_context w = w\<lparr>session_new := []\<rparr>"

definition create_app :: "(string \<Rightarrow> string \<Rightarrow> string) \<Rightarrow> 'u world \<Rightarrow> error + 'u world" where
  "create_app generate_password_hash w =
     (case Admin_query_filter_by_username_first ''admin'' (create_all (app_context w)) of
        (Inl e, w1) \<Rightarrow> Inl e
      | (Inr (Some admin), w1) \<Rightarrow> Inr w1
      | (Inr None, w1) \<Rightarrow>
          (let default_admin =
                 \<lparr>pk = None,
                  username = ''admin'',
                  email = ''admin@banking.com'',
                  password = generate_password_hash ''admin123'' ''pbkdf2:sha256''\<rparr>
           in case session_commit (session_add (NewAdmin default_admin) w1) of
                Inl e \<Rightarrow> Inl e
              | Inr w2 \<Rightarrow> Inr (fold print banner w2)))"

text \<open>
  The factory called once for each element of a list, on the database the call before
  left: the element is the hashing function of that call.
\<close>

fun startups :: "(string \<Rightarrow> string \<Rightarrow> string) list \<Rightarrow> 'u world \<Rightarrow> error + 'u world" where
  "startups [] w = Inr w"
| "startups (g # gs) w =
     (case create_app g w of
        Inl e \<Rightarrow> Inl e
      | Inr w' \<Rightarrow> startups gs w')"

definition admins_named :: "string \<Rightarrow> 'u world \<Rightarrow> admin list" where
  "admins_named name w = filter (\<lambda>r. username r = name) (rows (admin_table w))"

subsection \<open>The landing route and the error handlers\<close>

text \<open>
  A view returns a redirect, with its target and status code, or the text of a rendered
  template with a status code. \<open>url_for\<close> and \<open>render_template\<close> belong to the framework,
  the routes and the templates, and are parameters here.
\<close>

datatype view_result = Redirect string nat | Page string nat

fun status_code :: "view_result \<Rightarrow> nat" where
  "status_code (Redirect location code) = code"
| "status_code (Page body code) = code"

definition redirect :: "string \<Rightarrow> view_result" where
  "redirect location = Redirect location 302"

definition index :: "(string \<Rightarrow> error + string) \<Rightarrow> error + view_result" where
  "index url_for =
     (case url_for ''auth.choose'' of
        Inl e \<Rightarrow> Inl e
      | Inr location \<Rightarrow> Inr (redirect location))"

definition not_found_error :: "(string \<Rightarrow> error + string) \<Rightarrow> 'e \<Rightarrow> error + view_result" where
  "not_found_error render_template err =
     (case render_template ''errors/404.html'' of
        Inl e \<Rightarrow> Inl e
      | Inr body \<Rightarrow> Inr (Page body 404))"

definition internal_error ::
  "(string \<Rightarrow> error + string) \<Rightarrow> 'e \<Rightarrow> 'u world \<Rightarrow> (error + view_result) \<times> 'u world" where
  "internal_error render_template err w =
     (let w1 = session_rollback w
      in case render_template ''errors/500.html'' of
           Inl e \<Rightarrow> (Inl e, w1)
         | Inr body \<Rightarrow> (Inr (Page body 500), w1))"

subsection \<open>The configuration class\<close>

record config =
  SECRET_KEY :: string
  SQLALCHEMY_DATABASE_URI :: string
  SQLALCHEMY_TRACK_MODIFICATIONS :: bool
  PERMANENT_SESSION_LIFETIME :: int
  SESSION_COOKIE_HTTPONLY :: bool
  SESSION_COOKIE_SAMESITE :: string
  WTF_CSRF_ENABLED :: bool
  WTF_CSRF_TIME_LIMIT :: "int option"

text \<open>\<open>os.environ.get(name) or default\<close>: an empty value counts as a missing one.\<close>

definition environ_get_or :: "(string \<rightharpoonup> string) \<Rightarrow> string \<Rightarrow> string \<Rightarrow> string" where
  "environ_get_or environ name fallback =
     (case environ name of
        None \<Rightarrow> fallback
      | Some v \<Rightarrow> if v = [] then fallback else v)"

definition Config :: "(string \<rightharpoonup> string) \<Rightarrow> config" where
  "Config environ =
     \<lparr>SECRET_KEY =
        environ_get_or environ ''SECRET_KEY'' ''dev-secret-key-change-in-production-2024'',
      SQLALCHEMY_DATABASE_URI = environ_get_or environ ''DATABASE_URL'' ''sqlite:///bank.db'',
      SQLALCHEMY_TRACK_MODIFICATIONS = False,
      PERMANENT_SESSION_LIFETIME = 1800,
      SESSION_COOKIE_HTTPONLY = True,
      SESSION_COOKIE_SAMESITE = ''Lax'',
      WTF_CSRF_ENABLED = True,
      WTF_CSRF_TIME_LIMIT = None\<rparr>"

subsection \<open>Vocabulary of the properties\<close>

text \<open>
  The operations issued between two states of the world, and the part of an identifier
  \<open>admin_...\<close> that the loader converts: what follows the prefix, up to the next
  underscore or to the end.
\<close>

definition issued :: "'u world \<Rightarrow> 'u world \<Rightarrow> db_event list" where
  "issued w w' = drop (length (db_log w)) (db_log w')"

definition admin_segment :: "string \<Rightarrow> string" where
  "admin_segment user_id = takeWhile (\<lambda>c. c \<noteq> CHR ''_'') (drop 6 user_id)"

subsection \<open>Example data\<close>

text \<open>
  A hashing function, a database file that has no table yet, a database that holds the
  default administrator and one user, the same database during a request that failed with
  two objects pending, an environment that sets a variable for every setting, a URL
  builder and a template renderer.
\<close>

definition example_hash :: "string \<Rightarrow> string \<Rightarrow> string" where
  "example_hash pw method = method @ ''$salt$'' @ pw"

definition fresh_world :: "unit world" where
  "fresh_world =
     \<lparr>admin_table = None, user_table = None, session_new = [], db_log = [], stdout = [],
      int_max_str_digits = 4300\<rparr>"

definition seeded_world :: "unit world" where
  "seeded_world =
     \<lparr>admin_table =
        Some [\<lparr>pk = Some 1, username = ''admin'', email = ''admin@banking.com'',
               password = ''pbkdf2:sha256$salt$admin123''\<rparr>],
      user_table = Some [(7, ())], session_new = [], db_log = [], stdout = [],
      int_max_str_digits = 4300\<rparr>"

definition failed_request_world :: "unit world" where
  "failed_request_world = seeded_world\<lparr>session_new := [NewUser (), NewAdmin
      \<lparr>pk = None, username = ''mallory'', email = ''m@banking.com'', password = ''x''\<rparr>]\<rparr>"

definition example_environ :: "(string \<times> string) list" where
  "example_environ =
     [(''SECRET_KEY'', ''s3cret''),
      (''DATABASE_URL'', ''postgresql://db/bank''),
      (''SQLALCHEMY_TRACK_MODIFICATIONS'', ''True''),
      (''PERMANENT_SESSION_LIFETIME'', ''60''),
      (''SESSION_COOKIE_HTTPONLY'', ''False''),
      (''SESSION_COOKIE_SAMESITE'', ''Strict''),
      (''WTF_CSRF_ENABLED'', ''False''),
      (''WTF_CSRF_TIME_LIMIT'', ''3600'')]"

definition example_url_for :: "string \<Rightarrow> error + string" where
  "example_url_for endpoint =
     (if endpoint = ''auth.choose'' then Inr ''/auth/choose'' else Inl BuildError)"

definition example_render_template :: "string \<Rightarrow> error + string" where
  "example_render_template name =
     (if name = ''errors/500.html'' then Inr ''<h1>Server error</h1>''
      else if name = ''errors/404.html'' then Inr ''<h1>Not found</h1>''
      else Inl TemplateNotFound)"

section \<open>Properties\<close>

subsection \<open>Startup seeding\<close>

lemma find_None_filter: "(find P xs = None) = (filter P xs = [])"
  by (induction xs) auto

lemma stdout_fold_print: "stdout (fold print ls w) = stdout w @ ls"
  by (induction ls arbitrary: w) (simp_all add: print_def)

lemma fold_print_fields:
  "admin_table (fold print ls w) = admin_table w"
  "user_table (fold print ls w) = user_table w"
  "session_new (fold print ls w) = session_new w"
  "db_log (fold print ls w) = db_log w"
  "int_max_str_digits (fold print ls w) = int_max_str_digits w"
  by (induction ls arbitrary: w) (simp_all add: print_def)

lemma create_app_absent:
  assumes "admins_named ''admin'' w = []"
  shows "\<exists>w'. create_app g w = Inr w'
     \<and> admin_table w' = Some (rows (admin_table w) @
          [\<lparr>pk = Some (next_pk (keys_of (rows (admin_table w)))), username = ''admin'',
            email = ''admin@banking.com'', password = g ''admin123'' ''pbkdf2:sha256''\<rparr>])
     \<and> user_table w' = Some (rows (user_table w))
     \<and> session_new w' = []
     \<and> db_log w' = db_log w @ [CreateAll, AdminFilterByUsername ''admin'', SessionAdd, Commit]
     \<and> stdout w' = stdout w @ banner
     \<and> int_max_str_digits w' = int_max_str_digits w"
proof -
  from assms have "find (\<lambda>r. username r = ''admin'') (rows (admin_table w)) = None"
    by (simp add: admins_named_def find_None_filter)
  then show ?thesis
    by (simp add: create_app_def Admin_query_filter_by_username_first_def create_all_def
        app_context_def issue_def session_commit_def session_add_def insert_admin_def
        stdout_fold_print fold_print_fields)
qed

lemma create_app_present:
  assumes "admins_named ''admin'' w \<noteq> []"
  shows "create_app g w =
     Inr (w\<lparr>admin_table := Some (rows (admin_table w)),
            user_table := Some (rows (user_table w)),
            session_new := [],
            db_log := db_log w @ [CreateAll, AdminFilterByUsername ''admin'']\<rparr>)"
proof -
  from assms obtain a where "find (\<lambda>r. username r = ''admin'') (rows (admin_table w)) = Some a"
    by (cases "find (\<lambda>r. username r = ''admin'') (rows (admin_table w))")
       (auto simp: admins_named_def find_None_filter)
  then show ?thesis
    by (simp add: create_app_def Admin_query_filter_by_username_first_def create_all_def
        app_context_def issue_def)
qed

lemma create_app_returns: "\<exists>w'. create_app g w = Inr w'"
  using create_app_absent [of w g] create_app_present [of w g]
  by (cases "admins_named ''admin'' w = []") auto

lemma admins_named_create_app_absent:
  assumes "admins_named ''admin'' w = []" and "create_app g w = Inr w'"
  shows "length (admins_named ''admin'' w') = 1"
  using create_app_absent [OF assms(1), of g] assms
  by (auto simp: admins_named_def rows_def)

lemma admins_named_create_app_present:
  assumes "admins_named ''admin'' w \<noteq> []" and "create_app g w = Inr w'"
  shows "admins_named ''admin'' w' = admins_named ''admin'' w"
  using create_app_present [OF assms(1), of g] assms
  by (auto simp: admins_named_def rows_def)

lemma admins_named_create_app:
  assumes "create_app g w = Inr w'"
  shows "length (admins_named ''admin'' w') = max 1 (length (admins_named ''admin'' w))"
proof (cases "admins_named ''admin'' w = []")
  case True
  then show ?thesis using assms by (simp add: admins_named_create_app_absent)
next
  case False
  with assms have "admins_named ''admin'' w' = admins_named ''admin'' w"
    by (simp add: admins_named_create_app_present)
  with False show ?thesis by (cases "admins_named ''admin'' w") auto
qed

lemma admins_named_startups:
  "\<exists>w'. startups gs w = Inr w'
      \<and> length (admins_named ''admin'' w') =
          (if gs = [] then length (admins_named ''admin'' w)
           else max 1 (length (admins_named ''admin'' w)))"
proof (induction gs arbitrary: w)
  case Nil
  then show ?case by simp
next
  case (Cons g gs)
  obtain w1 where w1: "create_app g w = Inr w1"
    using create_app_returns by blast
  then have n1: "length (admins_named ''admin'' w1) = max 1 (length (admins_named ''admin'' w))"
    by (rule admins_named_create_app)
  from Cons.IH [of w1] obtain w' where
    r: "startups gs w1 = Inr w'" and
    n: "length (admins_named ''admin'' w') =
          (if gs = [] then length (admins_named ''admin'' w1)
           else max 1 (length (admins_named ''admin'' w1)))"
    by blast
  from n n1 have "length (admins_named ''admin'' w') = max 1 (length (admins_named ''admin'' w))"
    by (simp split: if_splits)
  with r w1 show ?case by simp
qed

text \<open>
  C1. Idempotent seeding. The factory called any number of times, at least once, on the
  same database returns every time, and the number of Admin rows named \<open>admin\<close> at the end
  is the number at the start, or one when there was none: no call after the first
  creates a second default administrator. So on a database that holds at most one Admin
  row named \<open>admin\<close>, exactly one such row exists after the calls. And a call changes the
  rows of the Admin table only when no row named \<open>admin\<close> was there.
\<close>

theorem create_app_idempotent_seeding:
  "(gs \<noteq> [] \<longrightarrow>
      (\<exists>w'. startups gs w = Inr w'
         \<and> length (admins_named ''admin'' w') = max 1 (length (admins_named ''admin'' w))))
   \<and> (gs \<noteq> [] \<and> length (admins_named ''admin'' w) \<le> 1 \<longrightarrow>
      (\<exists>w'. startups gs w = Inr w' \<and> length (admins_named ''admin'' w') = 1))
   \<and> (\<exists>w1. create_app g w = Inr w1
         \<and> (rows (admin_table w1) \<noteq> rows (admin_table w) \<longrightarrow> admins_named ''admin'' w = []))"
proof (intro conjI impI)
  assume "gs \<noteq> []"
  then show "\<exists>w'. startups gs w = Inr w'
         \<and> length (admins_named ''admin'' w') = max 1 (length (admins_named ''admin'' w))"
    using admins_named_startups [of gs w] by simp
next
  assume a: "gs \<noteq> [] \<and> length (admins_named ''admin'' w) \<le> 1"
  then have "max 1 (length (admins_named ''admin'' w)) = 1" by simp
  with a show "\<exists>w'. startups gs w = Inr w' \<and> length (admins_named ''admin'' w') = 1"
    using admins_named_startups [of gs w] by simp
next
  show "\<exists>w1. create_app g w = Inr w1
         \<and> (rows (admin_table w1) \<noteq> rows (admin_table w) \<longrightarrow> admins_named ''admin'' w = [])"
  proof (cases "admins_named ''admin'' w = []")
    case True
    then show ?thesis using create_app_returns [of g w] by auto
  next
    case False
    then show ?thesis by (simp add: create_app_present rows_def)
  qed
qed

theorem create_app_idempotent_seeding_witness:
  "[example_hash, example_hash, example_hash] \<noteq> []
   \<and> length (admins_named ''admin'' fresh_world) \<le> 1
   \<and> (\<exists>w'. startups [example_hash, example_hash, example_hash] fresh_world = Inr w'
         \<and> length (admins_named ''admin'' w') = 1)
   \<and> (\<exists>w1. create_app example_hash seeded_world = Inr w1
         \<and> rows (admin_table w1) = rows (admin_table seeded_world))"
proof -
  have h: "[example_hash, example_hash, example_hash] \<noteq> []
      \<and> length (admins_named ''admin'' fresh_world) \<le> 1"
    by (simp add: admins_named_def fresh_world_def rows_def)
  have n: "admins_named ''admin'' seeded_world \<noteq> []"
    by (simp add: admins_named_def seeded_world_def rows_def)
  from h n
    create_app_idempotent_seeding
      [of "[example_hash, example_hash, example_hash]" fresh_world example_hash]
    create_app_idempotent_seeding [of "[]" seeded_world example_hash]
  show ?thesis by auto
qed

text \<open>
  C3. On a database with no Admin row named \<open>admin\<close> the factory returns, and has
  inserted exactly one row: the Admin row of username \<open>admin\<close>, email
  \<open>admin@banking.com\<close> and password the salted hash of \<open>admin123\<close> by the method
  \<open>pbkdf2:sha256\<close>. The row was added to the session and then committed, the commit being
  the last operation issued, and nothing stays pending.
\<close>

theorem create_app_seeds_default_admin:
  assumes "admins_named ''admin'' w = []"
  shows "\<exists>w'. create_app generate_password_hash w = Inr w'
     \<and> rows (admin_table w') = rows (admin_table w) @
          [\<lparr>pk = Some (next_pk (keys_of (rows (admin_table w)))),
            username = ''admin'',
            email = ''admin@banking.com'',
            password = generate_password_hash ''admin123'' ''pbkdf2:sha256''\<rparr>]
     \<and> rows (user_table w') = rows (user_table w)
     \<and> session_new w' = []
     \<and> issued w w' = [CreateAll, AdminFilterByUsername ''admin'', SessionAdd, Commit]"
  using create_app_absent [OF assms, of generate_password_hash]
  by (auto simp: rows_def issued_def)

theorem create_app_seeds_default_admin_witness:
  "admins_named ''admin'' fresh_world = []
   \<and> (\<exists>w'. create_app example_hash fresh_world = Inr w'
        \<and> rows (admin_table w') =
            [\<lparr>pk = Some 1, username = ''admin'', email = ''admin@banking.com'',
              password = ''pbkdf2:sha256$salt$admin123''\<rparr>]
        \<and> issued fresh_world w' = [CreateAll, AdminFilterByUsername ''admin'', SessionAdd, Commit])"
proof -
  have h: "admins_named ''admin'' fresh_world = []"
    by (simp add: admins_named_def fresh_world_def rows_def)
  have r: "rows (admin_table fresh_world) = []"
    by (simp add: fresh_world_def rows_def)
  from create_app_seeds_default_admin [OF h, of example_hash] h r
  show ?thesis by (auto simp: keys_of_def example_hash_def List.map_filter_simps)
qed

text \<open>
  C10. Frame of the seeding: when an Admin row named \<open>admin\<close> exists, the factory leaves
  the Admin table as it was, row for row and field for field, adds no row to the User
  table, issues the creation of the tables and the query and nothing else, so no commit,
  and prints nothing.
\<close>

theorem create_app_frame_when_seeded:
  assumes "admins_named ''admin'' w \<noteq> []"
  shows "\<exists>w'. create_app generate_password_hash w = Inr w'
     \<and> admin_table w' = admin_table w
     \<and> rows (user_table w') = rows (user_table w)
     \<and> issued w w' = [CreateAll, AdminFilterByUsername ''admin'']
     \<and> Commit \<notin> set (issued w w')
     \<and> stdout w' = stdout w"
proof -
  from assms have "admin_table w = Some (rows (admin_table w))"
    by (cases "admin_table w") (simp_all add: admins_named_def rows_def)
  then show ?thesis
    by (simp add: create_app_present [OF assms] issued_def rows_def)
qed

theorem create_app_frame_when_seeded_witness:
  "admins_named ''admin'' seeded_world \<noteq> []
   \<and> (\<exists>w'. create_app example_hash seeded_world = Inr w'
        \<and> admin_table w' = admin_table seeded_world
        \<and> rows (user_table w') = [(7, ())]
        \<and> Commit \<notin> set (issued seeded_world w')
        \<and> stdout w' = [])"
proof -
  have h: "admins_named ''admin'' seeded_world \<noteq> []"
    by (simp add: admins_named_def seeded_world_def rows_def)
  from create_app_frame_when_seeded [OF h, of example_hash] h
  show ?thesis by (auto simp: seeded_world_def rows_def)
qed

subsection \<open>The principal loader\<close>

lemma str_split_not_Nil: "str_split sep s \<noteq> []"
  by (induction s) (auto split: list.splits)

lemma hd_str_split: "hd (str_split sep s) = takeWhile (\<lambda>c. c \<noteq> sep) s"
  by (induction s) (auto split: list.splits simp: str_split_not_Nil)

lemma str_split_Cons_other:
  "c \<noteq> sep \<Longrightarrow> str_split sep (c # cs) = (c # hd (str_split sep cs)) # tl (str_split sep cs)"
  using str_split_not_Nil [of sep cs] by (cases "str_split sep cs") auto

lemma str_split_admin:
  "str_split CHR ''_'' (''admin_'' @ r) = ''admin'' # str_split CHR ''_'' r"
proof -
  have "str_split CHR ''_'' (CHR ''_'' # r) = [] # str_split CHR ''_'' r" by simp
  then show ?thesis
    using str_split_not_Nil [of "CHR ''_''" r]
    by (cases "str_split CHR ''_'' r") (simp_all add: str_split_Cons_other del: str_split.simps)
qed

lemma admin_segment_split:
  assumes "startswith user_id ''admin_''"
  shows "getitem (str_split CHR ''_'' user_id) 1 = Inr (admin_segment user_id)"
proof -
  from assms have "user_id = ''admin_'' @ drop 6 user_id"
  proof -
    from assms have "take 6 user_id = ''admin_''"
      by (simp add: startswith_def eval_nat_numeral)
    then show ?thesis using append_take_drop_id [of 6 user_id] by simp
  qed
  then obtain r where r: "user_id = ''admin_'' @ r" and d: "drop 6 user_id = r" by auto
  have s: "str_split CHR ''_'' user_id = ''admin'' # str_split CHR ''_'' r"
    unfolding r by (rule str_split_admin)
  obtain p ps where p: "str_split CHR ''_'' r = p # ps"
    using str_split_not_Nil [of "CHR ''_''" r] by (cases "str_split CHR ''_'' r") auto
  have "p = takeWhile (\<lambda>c. c \<noteq> CHR ''_'') r"
    using hd_str_split [of "CHR ''_''" r] p by simp
  then show ?thesis
    by (simp add: getitem_def admin_segment_def s p d)
qed

lemma py_int_raises_ValueError: "py_int lim s = Inl e \<Longrightarrow> e = ValueError"
  by (auto simp: py_int_def Let_def split: prod.splits if_splits)

lemma py_int_empty: "py_int lim [] = Inl ValueError"
  by (simp add: py_int_def literal_ok_def)

lemma in_dropWhile: "c \<in> set s \<Longrightarrow> \<not> P c \<Longrightarrow> c \<in> set (dropWhile P s)"
  by (induction s) auto

lemma py_int_bad_char:
  assumes "c \<in> set s" and "\<not> is_digit c" and "c \<noteq> CHR ''_''" and "\<not> is_space c"
    and "c \<noteq> CHR ''+''" and "c \<noteq> CHR ''-''"
  shows "py_int lim s = Inl ValueError"
proof -
  define s1 where "s1 = dropWhile is_space s"
  define s2 where "s2 = (case s1 of [] \<Rightarrow> []
     | d # ds \<Rightarrow> if d = CHR ''+'' then ds else if d = CHR ''-'' then ds else s1)"
  have c1: "c \<in> set s1"
    unfolding s1_def using assms(1,4) by (rule in_dropWhile)
  have c2: "c \<in> set s2"
    using c1 assms(5,6) by (cases s1) (auto simp: s2_def)
  have "\<not> is_literal_char c"
    using assms(2,3) by (simp add: is_literal_char_def)
  with c2 have "c \<in> set (dropWhile is_literal_char s2)"
    by (rule in_dropWhile)
  with assms(4) have "\<not> list_all is_space (dropWhile is_literal_char s2)"
    by (auto simp: list_all_iff)
  then have bad: "\<not> list_all is_space (dropWhile is_literal_char s2)" .
  from c1 obtain d ds where s1: "s1 = d # ds" by (cases s1) auto
  consider "d = CHR ''+''" | "d = CHR ''-''" | "d \<noteq> CHR ''+'' \<and> d \<noteq> CHR ''-''"
    by blast
  then show ?thesis
  proof cases
    case 1
    with s1 have "s2 = ds" by (simp add: s2_def)
    with bad 1 s1 show ?thesis
      by (simp add: py_int_def Let_def s1_def [symmetric])
  next
    case 2
    with s1 have "s2 = ds" by (simp add: s2_def)
    with bad 2 s1 show ?thesis
      by (simp add: py_int_def Let_def s1_def [symmetric])
  next
    case 3
    with s1 have "s2 = d # ds" by (simp add: s2_def)
    with bad 3 s1 show ?thesis
      by (simp add: py_int_def Let_def s1_def [symmetric])
  qed
qed

lemma is_digit_not_space: "is_digit c \<Longrightarrow> \<not> is_space c"
  by (auto simp: is_digit_def is_space_def Let_def)

lemma is_digit_not_sign: "is_digit c \<Longrightarrow> c \<noteq> CHR ''+'' \<and> c \<noteq> CHR ''-'' \<and> c \<noteq> CHR ''_''"
  by (auto simp: is_digit_def Let_def)

lemma no_double_underscore: "CHR ''_'' \<notin> set s \<Longrightarrow> \<not> double_underscore s"
  by (induction s rule: double_underscore.induct) auto

lemma literal_ok_digits:
  assumes "a \<noteq> []" and "list_all is_digit a"
  shows "literal_ok a"
proof -
  from assms(2) have u: "CHR ''_'' \<notin> set a"
    using is_digit_not_sign by (auto simp: list_all_iff)
  from assms(1) have "last a \<in> set a" by simp
  with u have "last a \<noteq> CHR ''_''" by metis
  moreover from assms(1) u have "hd a \<noteq> CHR ''_''"
    by (cases a) auto
  ultimately show ?thesis
    using assms(1) u by (cases a) (auto simp: literal_ok_def no_double_underscore)
qed

lemma py_int_digits:
  assumes "a \<noteq> []" and "list_all is_digit a" and "lim = 0 \<or> length a \<le> lim"
  shows "py_int lim a = Inr (literal_value a)"
proof -
  from assms(1) obtain d ds where a: "a = d # ds" by (cases a) auto
  with assms(2) have d: "is_digit d" by simp
  have s1: "dropWhile is_space a = a"
    using d is_digit_not_space by (simp add: a)
  have lit: "\<forall>c\<in>set a. is_literal_char c"
    using assms(2) by (auto simp: list_all_iff is_literal_char_def)
  then have tw: "takeWhile is_literal_char a = a" and dw: "dropWhile is_literal_char a = []"
    by simp_all
  have n: "length (filter is_digit a) = length a"
    using assms(2) by (simp add: list_all_iff)
  have ok: "literal_ok a"
    using assms(1,2) by (rule literal_ok_digits)
  have sign: "(case a of [] \<Rightarrow> (1 :: int, [])
      | c # cs \<Rightarrow> if c = CHR ''+'' then (1, cs) else if c = CHR ''-'' then (- 1, cs) else (1, a))
     = (1, a)"
    using is_digit_not_sign [OF d] by (simp add: a)
  have sp: "list_all is_space []" by simp
  show ?thesis
    unfolding py_int_def Let_def s1 sign prod.case tw dw n
    using ok sp assms(3) by auto
qed

lemma load_user_admin:
  assumes "startswith user_id ''admin_''"
  shows "load_user user_id w =
     (case py_int (int_max_str_digits w) (admin_segment user_id) of
        Inl e \<Rightarrow> (Inl e, w)
      | Inr i \<Rightarrow> Admin_query_get i w)"
  using assms admin_segment_split [OF assms] by (simp add: load_user_def)

lemma load_user_other:
  assumes "\<not> startswith user_id ''admin_''"
  shows "load_user user_id w =
     (case py_int (int_max_str_digits w) user_id of
        Inl e \<Rightarrow> (Inl e, w)
      | Inr i \<Rightarrow> User_query_get i w)"
  using assms by (simp add: load_user_def)

lemma issued_same [simp]: "issued w w = []"
  by (simp add: issued_def)

lemma issued_issue [simp]: "issued w (issue e w) = [e]"
  by (simp add: issued_def issue_def)

lemma issued_Admin_query_get: "issued w (snd (Admin_query_get i w)) = [AdminGet i]"
  by (simp add: Admin_query_get_def split: option.splits)

lemma issued_User_query_get: "issued w (snd (User_query_get i w)) = [UserGet i]"
  by (simp add: User_query_get_def split: option.splits)

lemma seeded_limit: "int_max_str_digits seeded_world = 4300"
  by (simp add: seeded_world_def)

lemma py_int_examples:
  "py_int 4300 ''1'' = Inr 1"
  "py_int 4300 ''7'' = Inr 7"
  "py_int 4300 ''x'' = Inl ValueError"
  "py_int 4300 ''abc'' = Inl ValueError"
  "py_int 4300 ''1_x'' = Inl ValueError"
  by code_simp+

lemma admin_segment_examples:
  "admin_segment ''admin_1'' = ''1''"
  "admin_segment ''admin_x'' = ''x''"
  "admin_segment ''admin_'' = []"
  "admin_segment ''admin_1_x'' = ''1''"
  by code_simp+

lemma startswith_examples:
  "startswith ''admin_1'' ''admin_''"
  "startswith ''admin_x'' ''admin_''"
  "startswith ''admin_'' ''admin_''"
  "startswith ''admin_1_x'' ''admin_''"
  "\<not> startswith ''7'' ''admin_''"
  "\<not> startswith ''abc'' ''admin_''"
  by (simp_all add: startswith_def)

text \<open>
  C2. An identifier that starts with \<open>admin_\<close> makes the loader issue at most one
  operation, a lookup in the Admin table by the integer read from the part after the
  prefix, and none when that part is no integer; it never looks a user up, and its result
  does not depend on the User table. Any other identifier makes it issue at most one
  operation, a lookup in the User table by the integer the identifier reads as; it never
  looks an administrator up, and its result does not depend on the Admin table.
\<close>

theorem load_user_queries_one_table:
  "(startswith user_id ''admin_'' \<longrightarrow>
      issued w (snd (load_user user_id w)) =
        (case py_int (int_max_str_digits w) (admin_segment user_id) of
           Inl e \<Rightarrow> []
         | Inr i \<Rightarrow> [AdminGet i])
      \<and> (\<forall>i. UserGet i \<notin> set (issued w (snd (load_user user_id w))))
      \<and> fst (load_user user_id (w\<lparr>user_table := users'\<rparr>)) = fst (load_user user_id w))
   \<and> (\<not> startswith user_id ''admin_'' \<longrightarrow>
      issued w (snd (load_user user_id w)) =
        (case py_int (int_max_str_digits w) user_id of
           Inl e \<Rightarrow> []
         | Inr i \<Rightarrow> [UserGet i])
      \<and> (\<forall>i. AdminGet i \<notin> set (issued w (snd (load_user user_id w))))
      \<and> fst (load_user user_id (w\<lparr>admin_table := admins'\<rparr>)) = fst (load_user user_id w))"
proof (intro conjI impI)
  assume a: "startswith user_id ''admin_''"
  show "issued w (snd (load_user user_id w)) =
        (case py_int (int_max_str_digits w) (admin_segment user_id) of
           Inl e \<Rightarrow> [] | Inr i \<Rightarrow> [AdminGet i])"
    by (simp add: load_user_admin [OF a] issued_Admin_query_get split: sum.splits)
  show "\<forall>i. UserGet i \<notin> set (issued w (snd (load_user user_id w)))"
    by (simp add: load_user_admin [OF a] issued_Admin_query_get split: sum.splits)
  show "fst (load_user user_id (w\<lparr>user_table := users'\<rparr>)) = fst (load_user user_id w)"
    by (simp add: load_user_admin [OF a] Admin_query_get_def split: sum.splits option.splits)
next
  assume b: "\<not> startswith user_id ''admin_''"
  show "issued w (snd (load_user user_id w)) =
        (case py_int (int_max_str_digits w) user_id of
           Inl e \<Rightarrow> [] | Inr i \<Rightarrow> [UserGet i])"
    by (simp add: load_user_other [OF b] issued_User_query_get split: sum.splits)
  show "\<forall>i. AdminGet i \<notin> set (issued w (snd (load_user user_id w)))"
    by (simp add: load_user_other [OF b] issued_User_query_get split: sum.splits)
  show "fst (load_user user_id (w\<lparr>admin_table := admins'\<rparr>)) = fst (load_user user_id w)"
    by (simp add: load_user_other [OF b] User_query_get_def split: sum.splits option.splits)
qed

theorem load_user_queries_one_table_witness:
  "startswith ''admin_1'' ''admin_''
   \<and> issued seeded_world (snd (load_user ''admin_1'' seeded_world)) = [AdminGet 1]
   \<and> fst (load_user ''admin_1'' (seeded_world\<lparr>user_table := None\<rparr>))
       = fst (load_user ''admin_1'' seeded_world)
   \<and> \<not> startswith ''7'' ''admin_''
   \<and> issued seeded_world (snd (load_user ''7'' seeded_world)) = [UserGet 7]
   \<and> fst (load_user ''7'' (seeded_world\<lparr>admin_table := None\<rparr>))
       = fst (load_user ''7'' seeded_world)"
  using load_user_queries_one_table [of "''admin_1''" seeded_world None None]
    load_user_queries_one_table [of "''7''" seeded_world None None]
  by (simp add: startswith_examples admin_segment_examples py_int_examples seeded_limit)

text \<open>
  C4, as stated, fails: \<open>admin_1_x\<close> starts with \<open>admin_\<close>, what follows its first
  underscore, \<open>1_x\<close>, is no integer for \<open>int\<close>, and the loader returns the administrator
  of primary key 1 instead of raising.
\<close>

theorem load_user_accepts_extra_segment_counterexample:
  "startswith ''admin_1_x'' ''admin_''
   \<and> py_int (int_max_str_digits seeded_world) (drop 6 ''admin_1_x'') = Inl ValueError
   \<and> fst (load_user ''admin_1_x'' seeded_world) =
       Inr (Some (AdminRow \<lparr>pk = Some 1, username = ''admin'', email = ''admin@banking.com'',
                            password = ''pbkdf2:sha256$salt$admin123''\<rparr>))"
proof -
  have "drop 6 ''admin_1_x'' = ''1_x''" by code_simp
  then show ?thesis
    using load_user_admin [OF startswith_examples(4), of seeded_world]
    by (simp add: startswith_examples admin_segment_examples py_int_examples seeded_limit
        Admin_query_get_def) (simp add: seeded_world_def)
qed

text \<open>
  C4, amended. The loader raises ValueError, which nothing in it catches, and leaves the
  world untouched, for every identifier that starts with \<open>admin_\<close> when \<open>int\<close> refuses
  the part between the prefix and the next underscore, and for every other identifier
  that \<open>int\<close> refuses as a whole. \<open>int\<close> refuses in particular the empty string and every
  string that holds a character other than a digit, a sign, an underscore or white space.
\<close>

theorem load_user_raises_on_rejected_identifier:
  "(startswith user_id ''admin_'' \<and> py_int (int_max_str_digits w) (admin_segment user_id) = Inl e
      \<longrightarrow> load_user user_id w = (Inl ValueError, w))
   \<and> (\<not> startswith user_id ''admin_'' \<and> py_int (int_max_str_digits w) user_id = Inl e
      \<longrightarrow> load_user user_id w = (Inl ValueError, w))
   \<and> (startswith user_id ''admin_'' \<and> admin_segment user_id = []
      \<longrightarrow> load_user user_id w = (Inl ValueError, w))
   \<and> (c \<notin> set ''+-_'' \<and> \<not> is_digit c \<and> \<not> is_space c
       \<and> (if startswith user_id ''admin_'' then c \<in> set (admin_segment user_id)
           else c \<in> set user_id)
      \<longrightarrow> load_user user_id w = (Inl ValueError, w))"
proof (intro conjI impI)
  assume "startswith user_id ''admin_'' \<and> py_int (int_max_str_digits w) (admin_segment user_id) = Inl e"
  then show "load_user user_id w = (Inl ValueError, w)"
    using py_int_raises_ValueError [of "int_max_str_digits w" "admin_segment user_id" e]
    by (simp add: load_user_admin)
next
  assume "\<not> startswith user_id ''admin_'' \<and> py_int (int_max_str_digits w) user_id = Inl e"
  then show "load_user user_id w = (Inl ValueError, w)"
    using py_int_raises_ValueError [of "int_max_str_digits w" user_id e]
    by (simp add: load_user_other)
next
  assume "startswith user_id ''admin_'' \<and> admin_segment user_id = []"
  then show "load_user user_id w = (Inl ValueError, w)"
    by (simp add: load_user_admin py_int_empty)
next
  assume a: "c \<notin> set ''+-_'' \<and> \<not> is_digit c \<and> \<not> is_space c
       \<and> (if startswith user_id ''admin_'' then c \<in> set (admin_segment user_id)
           else c \<in> set user_id)"
  show "load_user user_id w = (Inl ValueError, w)"
  proof (cases "startswith user_id ''admin_''")
    case True
    with a have "py_int (int_max_str_digits w) (admin_segment user_id) = Inl ValueError"
      by (intro py_int_bad_char [of c]) auto
    with True show ?thesis by (simp add: load_user_admin)
  next
    case False
    with a have "py_int (int_max_str_digits w) user_id = Inl ValueError"
      by (intro py_int_bad_char [of c]) auto
    with False show ?thesis by (simp add: load_user_other)
  qed
qed

theorem load_user_raises_on_rejected_identifier_witness:
  "startswith ''admin_x'' ''admin_''
   \<and> py_int (int_max_str_digits seeded_world) (admin_segment ''admin_x'') = Inl ValueError
   \<and> load_user ''admin_x'' seeded_world = (Inl ValueError, seeded_world)
   \<and> \<not> startswith ''abc'' ''admin_''
   \<and> py_int (int_max_str_digits seeded_world) ''abc'' = Inl ValueError
   \<and> load_user ''abc'' seeded_world = (Inl ValueError, seeded_world)
   \<and> admin_segment ''admin_'' = []
   \<and> load_user ''admin_'' seeded_world = (Inl ValueError, seeded_world)"
  using load_user_raises_on_rejected_identifier [of "''admin_x''" seeded_world ValueError "CHR ''x''"]
    load_user_raises_on_rejected_identifier [of "''abc''" seeded_world ValueError "CHR ''b''"]
    load_user_raises_on_rejected_identifier [of "''admin_''" seeded_world ValueError "CHR ''x''"]
  by (simp add: startswith_examples admin_segment_examples py_int_examples seeded_limit)

text \<open>
  C9. Of an identifier \<open>admin_a_b\<close> the loader uses \<open>a\<close> only. When \<open>a\<close> is a decimal
  integer, one or more digits and no more of them than the interpreter converts, the
  loader does what the lookup of the administrator of that number does, whatever \<open>b\<close> is;
  and so it does for every \<open>a\<close> without underscore that \<open>int\<close> reads as an integer. The
  identifier \<open>admin_\<close> alone raises ValueError.
\<close>

theorem load_user_first_segment_only:
  "(a \<noteq> [] \<and> list_all is_digit a
      \<and> (int_max_str_digits w = 0 \<or> length a \<le> int_max_str_digits w) \<longrightarrow>
      load_user (''admin_'' @ a @ ''_'' @ b) w = Admin_query_get (literal_value a) w)
   \<and> (CHR ''_'' \<notin> set a \<and> py_int (int_max_str_digits w) a = Inr i \<longrightarrow>
      load_user (''admin_'' @ a @ ''_'' @ b) w = Admin_query_get i w)
   \<and> load_user ''admin_'' w = (Inl ValueError, w)"
proof -
  have p: "startswith (''admin_'' @ a @ ''_'' @ b) ''admin_''"
    by (simp add: startswith_def)
  have seg: "admin_segment (''admin_'' @ a @ ''_'' @ b) = a" if "CHR ''_'' \<notin> set a"
  proof -
    have "takeWhile (\<lambda>c. c \<noteq> CHR ''_'') (a @ CHR ''_'' # b) = takeWhile (\<lambda>c. c \<noteq> CHR ''_'') a"
      by (rule takeWhile_tail) simp
    also from that have "\<dots> = a" by auto
    finally show ?thesis by (simp add: admin_segment_def)
  qed
  have general: "load_user (''admin_'' @ a @ ''_'' @ b) w = Admin_query_get k w"
    if "CHR ''_'' \<notin> set a" and "py_int (int_max_str_digits w) a = Inr k" for k
    using load_user_admin [OF p, of w] seg [OF that(1)] that(2) by simp
  have digits: "load_user (''admin_'' @ a @ ''_'' @ b) w = Admin_query_get (literal_value a) w"
    if d: "a \<noteq> [] \<and> list_all is_digit a
      \<and> (int_max_str_digits w = 0 \<or> length a \<le> int_max_str_digits w)"
  proof -
    from d have "CHR ''_'' \<notin> set a"
      using is_digit_not_sign by (auto simp: list_all_iff)
    moreover from d have "py_int (int_max_str_digits w) a = Inr (literal_value a)"
      by (intro py_int_digits) auto
    ultimately show ?thesis by (rule general)
  qed
  have q: "startswith ''admin_'' ''admin_''"
    by (simp add: startswith_def)
  have alone: "load_user ''admin_'' w = (Inl ValueError, w)"
    using load_user_admin [OF q, of w] by (simp add: admin_segment_def py_int_empty)
  from general digits alone show ?thesis by blast
qed

theorem load_user_first_segment_only_witness:
  "''1'' \<noteq> [] \<and> list_all is_digit ''1''
   \<and> (int_max_str_digits seeded_world = 0 \<or> length ''1'' \<le> int_max_str_digits seeded_world)
   \<and> CHR ''_'' \<notin> set ''1''
   \<and> py_int (int_max_str_digits seeded_world) ''1'' = Inr 1
   \<and> literal_value ''1'' = 1
   \<and> load_user ''admin_1_x'' seeded_world = Admin_query_get 1 seeded_world
   \<and> fst (Admin_query_get 1 seeded_world) =
       Inr (Some (AdminRow \<lparr>pk = Some 1, username = ''admin'', email = ''admin@banking.com'',
                            password = ''pbkdf2:sha256$salt$admin123''\<rparr>))"
proof -
  have r: "fst (Admin_query_get 1 seeded_world) =
       Inr (Some (AdminRow \<lparr>pk = Some 1, username = ''admin'', email = ''admin@banking.com'',
                            password = ''pbkdf2:sha256$salt$admin123''\<rparr>))"
    by (simp add: Admin_query_get_def seeded_world_def)
  have d: "list_all is_digit ''1''" by code_simp
  have v: "literal_value ''1'' = 1" by code_simp
  from r d v load_user_first_segment_only [of "''1''" seeded_world "''x''" 1]
  show ?thesis
    by (simp add: py_int_examples seeded_limit)
qed

subsection \<open>The landing route and the error handlers\<close>

text \<open>
  C5. The view of \<open>/\<close> takes nothing from the request. When the URL builder knows the
  endpoint \<open>auth.choose\<close>, the view returns a redirect to its URL with status 302. Whatever
  the view returns is that redirect, never a response of status 200 and never a rendered
  page; and it raises only what the URL builder raises.
\<close>

theorem index_redirects_to_chooser:
  "(url_for ''auth.choose'' = Inr location \<longrightarrow>
       index url_for = Inr (Redirect location 302))
   \<and> (index url_for = Inr r \<longrightarrow>
       (\<exists>location. url_for ''auth.choose'' = Inr location \<and> r = Redirect location 302)
       \<and> status_code r \<noteq> 200
       \<and> (\<forall>body code. r \<noteq> Page body code))
   \<and> (index url_for = Inl e \<longrightarrow> url_for ''auth.choose'' = Inl e)"
  by (auto simp: index_def redirect_def split: sum.splits)

theorem index_redirects_to_chooser_witness:
  "example_url_for ''auth.choose'' = Inr ''/auth/choose''
   \<and> index example_url_for = Inr (Redirect ''/auth/choose'' 302)
   \<and> status_code (Redirect ''/auth/choose'' 302) \<noteq> 200"
proof -
  have h: "example_url_for ''auth.choose'' = Inr ''/auth/choose''"
    by (simp add: example_url_for_def)
  from index_redirects_to_chooser
    [of example_url_for "''/auth/choose''" "Redirect ''/auth/choose'' 302" BuildError] h
  show ?thesis by simp
qed

text \<open>
  C6. The handler of the status 500 rolls the session back before it renders: the
  rollback is the one operation it issues, whether the rendering succeeds or raises.
  After it nothing is pending and the tables are the ones from before, so a later commit
  writes none of the changes of the failed request. When the template \<open>errors/500.html\<close>
  renders, the handler returns that page with status 500.
\<close>

theorem internal_error_rolls_back_then_renders:
  "snd (internal_error render_template err w) = session_rollback w
   \<and> issued w (snd (internal_error render_template err w)) = [Rollback]
   \<and> session_new (snd (internal_error render_template err w)) = []
   \<and> admin_table (snd (internal_error render_template err w)) = admin_table w
   \<and> user_table (snd (internal_error render_template err w)) = user_table w
   \<and> (\<exists>w'. session_commit (snd (internal_error render_template err w)) = Inr w'
         \<and> admin_table w' = admin_table w \<and> user_table w' = user_table w)
   \<and> (render_template ''errors/500.html'' = Inr body \<longrightarrow>
         fst (internal_error render_template err w) = Inr (Page body 500))"
  by (auto simp: internal_error_def session_rollback_def issue_def issued_def
      session_commit_def Let_def split: sum.splits)

theorem internal_error_rolls_back_then_renders_witness:
  "example_render_template ''errors/500.html'' = Inr ''<h1>Server error</h1>''
   \<and> fst (internal_error example_render_template ValueError failed_request_world)
       = Inr (Page ''<h1>Server error</h1>'' 500)
   \<and> session_new failed_request_world \<noteq> []
   \<and> session_new (snd (internal_error example_render_template ValueError failed_request_world)) = []
   \<and> admin_table (snd (internal_error example_render_template ValueError failed_request_world))
       = admin_table seeded_world"
  using internal_error_rolls_back_then_renders
    [of example_render_template ValueError failed_request_world "''<h1>Server error</h1>''"]
  by (simp add: example_render_template_def failed_request_world_def session_rollback_def
      issue_def)

subsection \<open>The configuration class\<close>

text \<open>
  C7, as stated, fails: in an environment that sets a variable named after each setting,
  the session lifetime, the modification-tracking flag, the two cookie flags and the two
  CSRF settings keep the values written in the class.
\<close>

theorem Config_constant_settings_counterexample:
  "map_of example_environ ''PERMANENT_SESSION_LIFETIME'' = Some ''60''
   \<and> PERMANENT_SESSION_LIFETIME (Config (map_of example_environ)) = 1800
   \<and> map_of example_environ ''SQLALCHEMY_TRACK_MODIFICATIONS'' = Some ''True''
   \<and> SQLALCHEMY_TRACK_MODIFICATIONS (Config (map_of example_environ)) = False
   \<and> map_of example_environ ''SESSION_COOKIE_HTTPONLY'' = Some ''False''
   \<and> SESSION_COOKIE_HTTPONLY (Config (map_of example_environ)) = True
   \<and> map_of example_environ ''SESSION_COOKIE_SAMESITE'' = Some ''Strict''
   \<and> SESSION_COOKIE_SAMESITE (Config (map_of example_environ)) = ''Lax''
   \<and> map_of example_environ ''WTF_CSRF_ENABLED'' = Some ''False''
   \<and> WTF_CSRF_ENABLED (Config (map_of example_environ)) = True
   \<and> map_of example_environ ''WTF_CSRF_TIME_LIMIT'' = Some ''3600''
   \<and> WTF_CSRF_TIME_LIMIT (Config (map_of example_environ)) = None"
  by (simp add: Config_def example_environ_def)

text \<open>
  C7, amended. Two settings come from the environment: the secret key from \<open>SECRET_KEY\<close>
  and the database URL from \<open>DATABASE_URL\<close>, each falling back to the value written in
  the class when the variable is unset or empty. The six other settings are constants:
  no modification tracking, a session lifetime of 1800, HTTP-only cookies with SameSite
  \<open>Lax\<close>, CSRF enabled with no time limit.
\<close>

theorem Config_environment_overrides:
  "(environ ''SECRET_KEY'' = Some key \<and> key \<noteq> [] \<longrightarrow> SECRET_KEY (Config environ) = key)
   \<and> (environ ''SECRET_KEY'' = None \<or> environ ''SECRET_KEY'' = Some [] \<longrightarrow>
        SECRET_KEY (Config environ) = ''dev-secret-key-change-in-production-2024'')
   \<and> (environ ''DATABASE_URL'' = Some url \<and> url \<noteq> [] \<longrightarrow>
        SQLALCHEMY_DATABASE_URI (Config environ) = url)
   \<and> (environ ''DATABASE_URL'' = None \<or> environ ''DATABASE_URL'' = Some [] \<longrightarrow>
        SQLALCHEMY_DATABASE_URI (Config environ) = ''sqlite:///bank.db'')
   \<and> SQLALCHEMY_TRACK_MODIFICATIONS (Config environ) = False
   \<and> PERMANENT_SESSION_LIFETIME (Config environ) = 1800
   \<and> SESSION_COOKIE_HTTPONLY (Config environ) = True
   \<and> SESSION_COOKIE_SAMESITE (Config environ) = ''Lax''
   \<and> WTF_CSRF_ENABLED (Config environ) = True
   \<and> WTF_CSRF_TIME_LIMIT (Config environ) = None"
  by (auto simp: Config_def environ_get_or_def)

theorem Config_environment_overrides_witness:
  "map_of example_environ ''SECRET_KEY'' = Some ''s3cret''
   \<and> SECRET_KEY (Config (map_of example_environ)) = ''s3cret''
   \<and> map_of example_environ ''DATABASE_URL'' = Some ''postgresql://db/bank''
   \<and> SQLALCHEMY_DATABASE_URI (Config (map_of example_environ)) = ''postgresql://db/bank''
   \<and> map_of ([] :: (string \<times> string) list) ''SECRET_KEY'' = None
   \<and> SECRET_KEY (Config (map_of [])) = ''dev-secret-key-change-in-production-2024''
   \<and> map_of ([] :: (string \<times> string) list) ''DATABASE_URL'' = None
   \<and> SQLALCHEMY_DATABASE_URI (Config (map_of [])) = ''sqlite:///bank.db''"
  using Config_environment_overrides
      [of "map_of example_environ" "''s3cret''" "''postgresql://db/bank''"]
    Config_environment_overrides [of "map_of []" "''s3cret''" "''postgresql://db/bank''"]
  by (simp add: example_environ_def)

end
